theory Spec2Isabelle
  imports Complex_Main "HOL-Library.Multiset" "HOL-Library.Option_ord"
    "HOL-Library.Char_ord" "HOL-Library.List_Lexorder" "HOL-Library.Product_Lexorder"
begin

section \<open>Vehicle pass events folded into a mileage ledger\<close>

text \<open>
  A shallow embedding of \<^verbatim>\<open>summarize/summarize.py\<close> and of the adapter methods of
  \<^verbatim>\<open>database/postgresql_client.py\<close> that it calls. Python exceptions are values of
  \<open>error\<close>, a function that may raise returns \<open>error + 'a\<close> with \<open>Inl\<close> the exception.
  Python floats are modelled as exact reals, timestamps as integers (minutes on some
  fixed clock), strings as lists of 8-bit characters.
\<close>

datatype error =
    ValueError | TypeError | NameError | IndexError
  | UndefinedTable | DatabaseError | FileNotFoundError | IOError

subsection \<open>Mark tokens: \<^verbatim>\<open>mark_parse\<close> and \<^verbatim>\<open>mileage_diff\<close>\<close>

text \<open>\<^verbatim>\<open>str.isspace\<close> on the code points below 256.\<close>

definition isspace :: "char \<Rightarrow> bool" where
  "isspace c =
     (let n = (of_char c :: nat)
      in (9 \<le> n \<and> n \<le> 13) \<or> (28 \<le> n \<and> n \<le> 32) \<or> n = 133 \<or> n = 160)"

definition strip :: "string \<Rightarrow> string" where
  "strip s = rev (dropWhile isspace (rev (dropWhile isspace s)))"

text \<open>The class \<^verbatim>\<open>\d\<close> on the code points below 256, and \<^verbatim>\<open>int\<close> on a run of digits.\<close>

definition isdigit :: "char \<Rightarrow> bool" where
  "isdigit c = (let n = (of_char c :: nat) in 48 \<le> n \<and> n \<le> 57)"

definition digit_val :: "char \<Rightarrow> nat" where
  "digit_val c = (of_char c :: nat) - 48"

definition int_of_digits :: "string \<Rightarrow> nat" where
  "int_of_digits ds = foldl (\<lambda>a c. 10 * a + digit_val c) 0 ds"

text \<open>
  \<^verbatim>\<open>re.match(r"^K(\d+)\+(\d{3})$", s)\<close>: the letter K, a non-empty run of digits (the
  greedy group stops at the first non-digit, which must be the plus sign), the plus sign
  and exactly three digits up to the end. The result holds the two groups.
\<close>

definition mark_match :: "string \<Rightarrow> (string \<times> string) option" where
  "mark_match s =
     (case s of
        [] \<Rightarrow> None
      | c # r \<Rightarrow>
          if c \<noteq> CHR ''K'' then None
          else
            (let km = takeWhile isdigit r; rest = dropWhile isdigit r
             in if km = [] then None
                else
                  (case rest of
                     [] \<Rightarrow> None
                   | p # ms \<Rightarrow>
                       if p = CHR ''+'' \<and> length ms = 3 \<and> list_all isdigit ms
                       then Some (km, ms) else None)))"

definition mark_parse :: "string \<Rightarrow> error + real" where
  "mark_parse mark =
     (case mark_match (strip mark) of
        None \<Rightarrow> Inl ValueError
      | Some (km, ms) \<Rightarrow>
          (let km_part = int_of_digits km; meter_part = int_of_digits ms
           in Inr (real km_part + real meter_part / 1000)))"

definition mileage_diff :: "string \<Rightarrow> string \<Rightarrow> error + real" where
  "mileage_diff mark1 mark2 =
     (case mark_parse mark1 of
        Inl e \<Rightarrow> Inl e
      | Inr index1 \<Rightarrow>
          (case mark_parse mark2 of
             Inl e \<Rightarrow> Inl e
           | Inr index2 \<Rightarrow> Inr (\<bar>index1 - index2\<bar> / 1000)))"

subsection \<open>The standard route: \<^verbatim>\<open>path_index\<close> and \<^verbatim>\<open>is_continuous\<close>\<close>

text \<open>
  The route is \<^verbatim>\<open>self.standard_path\<close>, read from the configuration: a list of
  directions, each a list of strings. The value below is the default of
  \<^verbatim>\<open>VehicleDataProcessor.__init__\<close>.
\<close>

definition default_standard_path :: "string list list" where
  "default_standard_path =
     [[''K0001+000'', ''K0100+000'', ''K0200+000'', ''K0300+000''],
      [''K0001+300'', ''K0100+300'', ''K0100+300'', ''K0100+300'']]"

text \<open>
  \<^verbatim>\<open>mark in path\<close> with \<^verbatim>\<open>path\<close> a string: Python's substring test, true when
  \<^verbatim>\<open>mark\<close> is a contiguous part of \<^verbatim>\<open>path\<close> (the empty string is part of every string).
\<close>

fun startswith :: "string \<Rightarrow> string \<Rightarrow> bool" where
  "startswith [] s = True"
| "startswith (c # cs) [] = False"
| "startswith (c # cs) (d # ds) = (c = d \<and> startswith cs ds)"

fun str_in :: "string \<Rightarrow> string \<Rightarrow> bool" where
  "str_in m [] = (m = [])"
| "str_in m (c # cs) = (startswith m (c # cs) \<or> str_in m cs)"

text \<open>
  \<^verbatim>\<open>for loc, path in enumerate(seq): if mark in path: return loc\<close>, started at
  index \<open>loc\<close>; \<open>None\<close> when the loop ends without returning.
\<close>

fun scan :: "string \<Rightarrow> string list \<Rightarrow> nat \<Rightarrow> nat option" where
  "scan mark [] loc = None"
| "scan mark (path # rest) loc =
     (if str_in mark path then Some loc else scan mark rest (Suc loc))"

text \<open>
  The \<^verbatim>\<open>else\<close> of the first loop runs whenever that loop did not return.
  \<^verbatim>\<open>standard_path[0]\<close> and \<^verbatim>\<open>standard_path[1]\<close> raise IndexError on a shorter list.
\<close>

definition path_index :: "string list list \<Rightarrow> string option \<Rightarrow> error + int" where
  "path_index standard_path mark =
     (case mark of
        None \<Rightarrow> Inl ValueError
      | Some m \<Rightarrow>
          (case standard_path of
             [] \<Rightarrow> Inl IndexError
           | outbound # others \<Rightarrow>
               (case scan m outbound 0 of
                  Some loc \<Rightarrow> Inr (int loc)
                | None \<Rightarrow>
                    (case others of
                       [] \<Rightarrow> Inl IndexError
                     | inbound # _ \<Rightarrow>
                         (case scan m inbound 0 of
                            Some loc \<Rightarrow> Inr (int loc + 10000)
                          | None \<Rightarrow> Inl ValueError)))))"

definition is_continuous :: "string list list \<Rightarrow> string \<Rightarrow> string \<Rightarrow> error + bool" where
  "is_continuous standard_path mark1 mark2 =
     (case path_index standard_path (Some mark1) of
        Inl e \<Rightarrow> Inl e
      | Inr index1 \<Rightarrow>
          (case path_index standard_path (Some mark2) of
             Inl e \<Rightarrow> Inl e
           | Inr index2 \<Rightarrow> Inr (index1 - index2 = 1)))"

subsection \<open>The per-vehicle fold of \<^verbatim>\<open>_process_single_plate\<close>\<close>

text \<open>
  A row of the staged relations (columns \<^verbatim>\<open>plate, mark, pass_time\<close>; both \<^verbatim>\<open>mark\<close>
  and \<^verbatim>\<open>pass_time\<close> are nullable) and a row of \<^verbatim>\<open>vehicle_info\<close> with the columns the
  fold reads and writes.
\<close>

record staged_row =
  r_plate :: string
  r_mark :: "string option"
  r_pass_time :: "int option"

record vehicle_info_row =
  plate :: string
  bonus :: real
  last_record :: "string option"
  last_record_time :: "int option"
  mileage :: real
  points :: real

text \<open>
  \<^verbatim>\<open>last_record_time is not None and pass_time < last_record_time\<close>: the conjunction
  short-circuits; comparing \<^verbatim>\<open>None\<close> with a timestamp raises TypeError.
\<close>

definition is_stale :: "int option \<Rightarrow> int option \<Rightarrow> error + bool" where
  "is_stale last_time pass_time =
     (case last_time of
        None \<Rightarrow> Inr False
      | Some t \<Rightarrow> (case pass_time of None \<Rightarrow> Inl TypeError | Some p \<Rightarrow> Inr (p < t)))"

text \<open>
  Lines 300 to 306: \<^verbatim>\<open>mileage += diff\<close> under the two guards. \<^verbatim>\<open>is_continuous\<close> and
  \<^verbatim>\<open>mileage_diff\<close> raise ValueError, which leaves the loop.
\<close>

definition add_mileage ::
  "string list list \<Rightarrow> string option \<Rightarrow> string option \<Rightarrow> real \<Rightarrow> error + real" where
  "add_mileage standard_path mark last_rec mileage0 =
     (case mark of
        None \<Rightarrow> Inr mileage0
      | Some m \<Rightarrow>
          (case last_rec of
             None \<Rightarrow> Inr mileage0
           | Some l \<Rightarrow>
               (case is_continuous standard_path m l of
                  Inl e \<Rightarrow> Inl e
                | Inr False \<Rightarrow> Inr mileage0
                | Inr True \<Rightarrow>
                    (case mileage_diff m l of
                       Inl e \<Rightarrow> Inl e
                     | Inr diff \<Rightarrow> Inr (mileage0 + diff)))))"

text \<open>
  The loop of lines 288 to 309 over \<^verbatim>\<open>records\<close>, on the three local variables
  \<^verbatim>\<open>(last_record, last_record_time, mileage)\<close>.
\<close>

type_synonym fold_state = "string option \<times> int option \<times> real"

fun fold_records :: "string list list \<Rightarrow> fold_state \<Rightarrow> staged_row list \<Rightarrow> error + fold_state" where
  "fold_records standard_path (last_rec, last_time, mileage0) [] =
     Inr (last_rec, last_time, mileage0)"
| "fold_records standard_path (last_rec, last_time, mileage0) (record # records) =
     (case is_stale last_time (r_pass_time record) of
        Inl e \<Rightarrow> Inl e
      | Inr True \<Rightarrow> fold_records standard_path (last_rec, last_time, mileage0) records
      | Inr False \<Rightarrow>
          (case add_mileage standard_path (r_mark record) last_rec mileage0 of
             Inl e \<Rightarrow> Inl e
           | Inr mileage1 \<Rightarrow>
               fold_records standard_path (r_mark record, r_pass_time record, mileage1) records))"

text \<open>
  \<^verbatim>\<open>db_client.select("vehicle_info", ..., where="plate = %s")\<close> and
  \<^verbatim>\<open>db_client.update("vehicle_info", {...}, where="plate = %s")\<close> on the rows of
  \<^verbatim>\<open>vehicle_info\<close>.
\<close>

definition select_vehicle_info :: "vehicle_info_row list \<Rightarrow> string \<Rightarrow> vehicle_info_row list" where
  "select_vehicle_info rows p = filter (\<lambda>r. plate r = p) rows"

definition update_vehicle_info ::
  "vehicle_info_row list \<Rightarrow> string \<Rightarrow> string option \<Rightarrow> int option \<Rightarrow> real \<Rightarrow> real
     \<Rightarrow> vehicle_info_row list" where
  "update_vehicle_info rows p lr lt m pts =
     map (\<lambda>r. if plate r = p
               then r\<lparr>last_record := lr, last_record_time := lt, mileage := m, points := pts\<rparr>
               else r) rows"

text \<open>
  Lines 267 to 324, the body of the \<^verbatim>\<open>try\<close> once the task holds its client: read the
  ledger row, return \<^verbatim>\<open>True\<close> when there is none, fold, write the row back. The
  statements of the task's client are applied to the rows directly.
\<close>

definition process_plate_body ::
  "string list list \<Rightarrow> vehicle_info_row list \<Rightarrow> string \<Rightarrow> staged_row list
     \<Rightarrow> error + (vehicle_info_row list \<times> bool)" where
  "process_plate_body standard_path rows p records =
     (case select_vehicle_info rows p of
        [] \<Rightarrow> Inr (rows, True)
      | vehicle_info0 # _ \<Rightarrow>
          (case fold_records standard_path
                  (last_record vehicle_info0, last_record_time vehicle_info0, mileage vehicle_info0)
                  records of
             Inl e \<Rightarrow> Inl e
           | Inr (lr, lt, m) \<Rightarrow>
               (let pts = m * bonus vehicle_info0
                in Inr (update_vehicle_info rows p lr lt m pts, True))))"

text \<open>
  The names bound at module level in \<^verbatim>\<open>summarize.py\<close> (its imports, assignments and
  definitions). Evaluating a name that is neither local nor bound here nor a builtin
  raises NameError.
\<close>

definition module_globals :: "string list" where
  "module_globals =
     [''List'', ''Dict'', ''Any'', ''Optional'', ''defaultdict'', ''Decimal'',
      ''PostgreSQLClient'', ''csv'', ''datetime'', ''re'', ''logging'', ''os'',
      ''contextmanager'', ''ThreadPoolExecutor'', ''as_completed'', ''threading'', ''sys'',
      ''config_manager'', ''log_config'', ''logger'', ''mark_parse'', ''mileage_diff'',
      ''VehicleDataProcessor'']"

definition lookup_global :: "string \<Rightarrow> error + unit" where
  "lookup_global name = (if name \<in> set module_globals then Inr () else Inl NameError)"

text \<open>
  \<^verbatim>\<open>_process_single_plate\<close>: a fresh \<^verbatim>\<open>threading.local()\<close> has no \<^verbatim>\<open>db_client\<close>, so
  the client is constructed from the global name \<^verbatim>\<open>PostSQLClient\<close>; every exception of
  the \<^verbatim>\<open>try\<close> is caught and turned into \<^verbatim>\<open>False\<close>; the \<^verbatim>\<open>finally\<close> block builds
  another fresh \<^verbatim>\<open>threading.local()\<close> and closes nothing.
\<close>

definition process_single_plate ::
  "string list list \<Rightarrow> vehicle_info_row list \<Rightarrow> string \<Rightarrow> staged_row list
     \<Rightarrow> vehicle_info_row list \<times> bool" where
  "process_single_plate standard_path rows p records =
     (case lookup_global ''PostSQLClient'' of
        Inl e \<Rightarrow> (rows, False)
      | Inr _ \<Rightarrow>
          (case process_plate_body standard_path rows p records of
             Inl e \<Rightarrow> (rows, False)
           | Inr (rows', ok) \<Rightarrow> (rows', ok)))"

subsection \<open>The store and the adapter methods of \<^verbatim>\<open>PostgreSQLClient\<close>\<close>

text \<open>
  The store holds the two permanent tables of \<^verbatim>\<open>init_db.py\<close> and the relations that the
  adapter creates and drops by name. Relation names resolve in one namespace. A relation
  has the raw layout (three text columns \<^verbatim>\<open>plate, pass_time, mark\<close>, as
  \<^verbatim>\<open>create_raw_table\<close> makes it) or the trace layout (with a timestamp, as
  \<^verbatim>\<open>create_filtered_table\<close> and \<^verbatim>\<open>create_and_populate_staging\<close> make it; the
  \<^verbatim>\<open>seq\<close> column of the staging relation is never read and is left out).
\<close>

type_synonym raw_row = "string option \<times> string option \<times> string option"

datatype relation = RawRel "raw_row list" | TraceRel "staged_row list"

record store =
  vehicle_info :: "vehicle_info_row list"
  vehicle_record :: "staged_row list"
  relations :: "string \<rightharpoonup> relation"

definition RAW_TABLE :: string where
  "RAW_TABLE = ''raw_trace_data''"

definition FILTERED_TABLE :: string where
  "FILTERED_TABLE = ''filtered_trace_data''"

definition STAGING_TABLE :: string where
  "STAGING_TABLE = ''staging_trace_data''"

definition drop_table_if_exists :: "string \<Rightarrow> store \<Rightarrow> store" where
  "drop_table_if_exists table st = st\<lparr>relations := (relations st)(table := None)\<rparr>"

definition create_raw_table :: "store \<Rightarrow> store" where
  "create_raw_table st =
     (case relations st RAW_TABLE of
        None \<Rightarrow> st\<lparr>relations := (relations st)(RAW_TABLE \<mapsto> RawRel [])\<rparr>
      | Some _ \<Rightarrow> st)"

definition create_filtered_table :: "store \<Rightarrow> store" where
  "create_filtered_table st =
     (case relations st FILTERED_TABLE of
        None \<Rightarrow> st\<lparr>relations := (relations st)(FILTERED_TABLE \<mapsto> TraceRel [])\<rparr>
      | Some _ \<Rightarrow> st)"

text \<open>
  \<^verbatim>\<open>copy_from(f, table, sep=',', columns=['plate', 'pass_time', 'mark'])\<close>. The file is
  given as its data lines, each split at the separator; the field \<^verbatim>\<open>\N\<close> is NULL. A
  missing relation, or a line without three fields, makes the COPY fail, and
  \<^verbatim>\<open>copy_from\<close> wraps every failure in DatabaseError. Only the raw layout is modelled
  as a target.
\<close>

definition copy_field :: "string \<Rightarrow> string option" where
  "copy_field f = (if f = [CHR 0x5C, CHR ''N''] then None else Some f)"

definition copy_line :: "string list \<Rightarrow> raw_row option" where
  "copy_line cols =
     (case cols of
        [p, t, m] \<Rightarrow> Some (copy_field p, copy_field t, copy_field m)
      | _ \<Rightarrow> None)"

fun copy_lines :: "string list list \<Rightarrow> raw_row list option" where
  "copy_lines [] = Some []"
| "copy_lines (l # ls) =
     (case copy_line l of
        None \<Rightarrow> None
      | Some r \<Rightarrow> (case copy_lines ls of None \<Rightarrow> None | Some rs \<Rightarrow> Some (r # rs)))"

definition copy_from :: "string list list \<Rightarrow> string \<Rightarrow> store \<Rightarrow> error + store" where
  "copy_from file_lines table st =
     (case relations st table of
        Some (RawRel rs) \<Rightarrow>
          (case copy_lines file_lines of
             None \<Rightarrow> Inl DatabaseError
           | Some new \<Rightarrow> Inr (st\<lparr>relations := (relations st)(table \<mapsto> RawRel (rs @ new))\<rparr>))
      | _ \<Rightarrow> Inl DatabaseError)"

text \<open>
  \<^verbatim>\<open>import_from_raw_to_filtered\<close>: the distinct rows of the raw relation whose plate is
  registered, with the text converted by \<^verbatim>\<open>TO_TIMESTAMP\<close>. The conversion is a
  parameter; \<open>None\<close> is a text it rejects. A NULL text stays NULL.
\<close>

fun convert_rows :: "(string \<Rightarrow> int option) \<Rightarrow> raw_row list \<Rightarrow> staged_row list option" where
  "convert_rows to_timestamp [] = Some []"
| "convert_rows to_timestamp ((p, t, m) # rs) =
     (case p of
        None \<Rightarrow> convert_rows to_timestamp rs
      | Some pl \<Rightarrow>
          (case (case t of None \<Rightarrow> Some None
                 | Some txt \<Rightarrow> (case to_timestamp txt of None \<Rightarrow> None | Some ts \<Rightarrow> Some (Some ts))) of
             None \<Rightarrow> None
           | Some ts \<Rightarrow>
               (case convert_rows to_timestamp rs of
                  None \<Rightarrow> None
                | Some out \<Rightarrow> Some (\<lparr>r_plate = pl, r_mark = m, r_pass_time = ts\<rparr> # out))))"

definition import_from_raw_to_filtered :: "(string \<Rightarrow> int option) \<Rightarrow> store \<Rightarrow> error + store" where
  "import_from_raw_to_filtered to_timestamp st =
     (case relations st FILTERED_TABLE of
        Some (TraceRel fs) \<Rightarrow>
          (case relations st RAW_TABLE of
             Some (RawRel rs) \<Rightarrow>
               (case convert_rows to_timestamp
                       (filter (\<lambda>(p, t, m). p \<in> set (map (\<lambda>v. Some (plate v)) (vehicle_info st))) rs) of
                  None \<Rightarrow> Inl DatabaseError
                | Some new \<Rightarrow>
                    Inr (st\<lparr>relations :=
                              (relations st)(FILTERED_TABLE \<mapsto> TraceRel (fs @ remdups new))\<rparr>))
           | _ \<Rightarrow> Inl UndefinedTable)
      | _ \<Rightarrow> Inl UndefinedTable)"

text \<open>\<^verbatim>\<open>execute("SELECT COUNT(*) AS imported_count FROM <table>")\<close>.\<close>

definition count_rows :: "string \<Rightarrow> store \<Rightarrow> error + nat" where
  "count_rows table st =
     (case relations st table of
        None \<Rightarrow> Inl UndefinedTable
      | Some (RawRel rs) \<Rightarrow> Inr (length rs)
      | Some (TraceRel rs) \<Rightarrow> Inr (length rs))"



text \<open>
  \<^verbatim>\<open>select(table, ["plate", "mark", "pass_time"], order_by="plate, pass_time")\<close>:
  ascending, NULL timestamps last.
\<close>

definition order_key :: "staged_row \<Rightarrow> string \<times> nat \<times> int" where
  "order_key r =
     (r_plate r, (case r_pass_time r of None \<Rightarrow> (1, 0) | Some t \<Rightarrow> (0, t)))"

definition select_ordered :: "string \<Rightarrow> store \<Rightarrow> error + staged_row list" where
  "select_ordered table st =
     (case relations st table of
        Some (TraceRel rs) \<Rightarrow> Inr (sort_key order_key rs)
      | _ \<Rightarrow> Inl UndefinedTable)"

text \<open>
  \<^verbatim>\<open>db_connection\<close>: the body runs between \<^verbatim>\<open>begin\<close> and \<^verbatim>\<open>commit\<close>; an
  exception rolls the store back to its state at \<^verbatim>\<open>begin\<close> and is raised again.
\<close>

definition db_connection :: "(store \<Rightarrow> error + store \<times> 'a) \<Rightarrow> store \<Rightarrow> store \<times> (error + 'a)" where
  "db_connection body st =
     (case body st of
        Inl e \<Rightarrow> (st, Inl e)
      | Inr (st', v) \<Rightarrow> (st', Inr v))"

subsection \<open>\<^verbatim>\<open>import_vehicle_trace_from_csv\<close>\<close>

text \<open>
  The file is \<open>None\<close> when \<^verbatim>\<open>open\<close> raises, else its lines after the header line.
  Every exception of the transaction is raised again as IOError.
\<close>

definition import_trace_body ::
  "(string \<Rightarrow> int option) \<Rightarrow> string list list option \<Rightarrow> store \<Rightarrow> error + store \<times> nat" where
  "import_trace_body to_timestamp csv_file st =
     (let st1 = drop_table_if_exists ''raw_table'' st;
          st2 = create_raw_table st1
      in case csv_file of
           None \<Rightarrow> Inl FileNotFoundError
         | Some file_lines \<Rightarrow>
             (case copy_from file_lines ''raw_table'' st2 of
                Inl e \<Rightarrow> Inl e
              | Inr st3 \<Rightarrow>
                  (let st4 = drop_table_if_exists ''filtered_table'' st3;
                       st5 = create_filtered_table st4
                   in case import_from_raw_to_filtered to_timestamp st5 of
                        Inl e \<Rightarrow> Inl e
                      | Inr st6 \<Rightarrow>
                          (case count_rows ''raw_table'' st6 of
                             Inl e \<Rightarrow> Inl e
                           | Inr imported_count \<Rightarrow>
                               Inr (drop_table_if_exists ''raw_table'' st6, imported_count)))))"

definition import_vehicle_trace_from_csv ::
  "(string \<Rightarrow> int option) \<Rightarrow> string list list option \<Rightarrow> store \<Rightarrow> store \<times> (error + nat)" where
  "import_vehicle_trace_from_csv to_timestamp csv_file st =
     (case db_connection (import_trace_body to_timestamp csv_file) st of
        (st', Inl e) \<Rightarrow> (st', Inl IOError)
      | (st', Inr imported_count) \<Rightarrow> (st', Inr imported_count))"

subsection \<open>\<^verbatim>\<open>_update_vehicle_info_from_staging\<close> and \<^verbatim>\<open>process_vehicle_data\<close>\<close>

text \<open>
  \<^verbatim>\<open>plate_groups[plate].append(record)\<close> on a \<^verbatim>\<open>defaultdict(list)\<close>: the groups keep
  the order in which their plates first appear, each group the order of its records.
\<close>

fun plate_groups_append ::
  "(string \<times> staged_row list) list \<Rightarrow> staged_row \<Rightarrow> (string \<times> staged_row list) list" where
  "plate_groups_append [] r = [(r_plate r, [r])]"
| "plate_groups_append ((p, rs) # gs) r =
     (if p = r_plate r then (p, rs @ [r]) # gs else (p, rs) # plate_groups_append gs r)"

definition plate_groups :: "staged_row list \<Rightarrow> (string \<times> staged_row list) list" where
  "plate_groups staging_data = foldl plate_groups_append [] staging_data"

text \<open>
  One task per plate. The tasks touch disjoint ledger rows, so they are run here one after
  the other in the order of the groups; each result is counted as a success or a failure.
\<close>

fun run_tasks ::
  "string list list \<Rightarrow> vehicle_info_row list \<Rightarrow> (string \<times> staged_row list) list
     \<Rightarrow> vehicle_info_row list \<times> nat \<times> nat" where
  "run_tasks sp rows [] = (rows, 0, 0)"
| "run_tasks sp rows ((p, records) # gs) =
     (case process_single_plate sp rows p records of
        (rows1, result) \<Rightarrow>
          (case run_tasks sp rows1 gs of
             (rows2, success_count, failure_count) \<Rightarrow>
               if result then (rows2, Suc success_count, failure_count)
               else (rows2, success_count, Suc failure_count)))"

text \<open>
  The processor's business parameters and \<^verbatim>\<open>os.cpu_count()\<close>.
  \<^verbatim>\<open>ThreadPoolExecutor(max_workers=n)\<close> raises ValueError for \<open>n \<le> 0\<close>.
\<close>

record processor =
  standard_path :: "string list list"
  max_threads_multiplier :: int
  cpu_count :: nat

definition update_vehicle_info_from_staging ::
  "processor \<Rightarrow> store \<Rightarrow> error + store \<times> nat \<times> nat" where
  "update_vehicle_info_from_staging pr st =
     (case select_ordered ''staging_table'' st of
        Inl e \<Rightarrow> Inl e
      | Inr staging_data \<Rightarrow>
          (let groups = plate_groups staging_data;
               max_workers = min (int (length groups)) (int (cpu_count pr) * max_threads_multiplier pr)
           in if max_workers \<le> 0 then Inl ValueError
              else
                (case run_tasks (standard_path pr) (vehicle_info st) groups of
                   (rows, success_count, failure_count) \<Rightarrow>
                     Inr (st\<lparr>vehicle_info := rows\<rparr>, success_count, failure_count))))"



section \<open>Properties of the route model\<close>

subsection \<open>The substring test and the scan\<close>

lemma startswith_iff: "startswith m s \<longleftrightarrow> (\<exists>q. s = m @ q)"
  by (induction m s rule: startswith.induct) auto

lemma str_in_iff: "str_in m t \<longleftrightarrow> (\<exists>p q. t = p @ m @ q)"
proof (induction t)
  case Nil
  then show ?case by auto
next
  case (Cons c cs)
  show ?case
  proof
    assume "str_in m (c # cs)"
    then consider "startswith m (c # cs)" | "str_in m cs" by auto
    then show "\<exists>p q. c # cs = p @ m @ q"
    proof cases
      case 1
      then obtain q where "c # cs = m @ q" by (auto simp: startswith_iff)
      then have "c # cs = [] @ m @ q" by simp
      then show ?thesis by blast
    next
      case 2
      then obtain p q where "cs = p @ m @ q" using Cons.IH by blast
      then have "c # cs = (c # p) @ m @ q" by simp
      then show ?thesis by blast
    qed
  next
    assume "\<exists>p q. c # cs = p @ m @ q"
    then obtain p q where pq: "c # cs = p @ m @ q" by blast
    show "str_in m (c # cs)"
    proof (cases p)
      case Nil
      then have "startswith m (c # cs)" using pq by (auto simp: startswith_iff)
      then show ?thesis by simp
    next
      case (Cons d p')
      then have "cs = p' @ m @ q" using pq by simp
      then have "str_in m cs" using Cons.IH by blast
      then show ?thesis by simp
    qed
  qed
qed

lemma scan_None: "scan m xs n = None \<longleftrightarrow> (\<forall>t\<in>set xs. \<not> str_in m t)"
  by (induction xs arbitrary: n) auto

lemma scan_Some:
  "scan m xs n = Some k \<longleftrightarrow>
     (\<exists>i<length xs. k = n + i \<and> str_in m (xs ! i) \<and> (\<forall>j<i. \<not> str_in m (xs ! j)))"
proof (induction xs arbitrary: n)
  case Nil
  then show ?case by simp
next
  case (Cons x xs)
  let ?P = "\<lambda>ys i. str_in m (ys ! i) \<and> (\<forall>j<i. \<not> str_in m (ys ! j))"
  show ?case
  proof (cases "str_in m x")
    case True
    have "(\<exists>i<length (x # xs). k = n + i \<and> ?P (x # xs) i) \<longleftrightarrow> k = n"
    proof
      assume "\<exists>i<length (x # xs). k = n + i \<and> ?P (x # xs) i"
      then obtain i where i: "k = n + i" "\<forall>j<i. \<not> str_in m ((x # xs) ! j)" by blast
      have "i = 0"
      proof (rule ccontr)
        assume "i \<noteq> 0"
        then have "\<not> str_in m ((x # xs) ! 0)" using i(2) by blast
        then show False using True by simp
      qed
      then show "k = n" using i by simp
    next
      assume "k = n"
      then show "\<exists>i<length (x # xs). k = n + i \<and> ?P (x # xs) i"
        using True by (intro exI[of _ 0]) simp
    qed
    then show ?thesis using True by auto
  next
    case False
    have "(\<exists>i<length (x # xs). k = n + i \<and> ?P (x # xs) i)
      \<longleftrightarrow> (\<exists>i<length xs. k = Suc n + i \<and> ?P xs i)"
      (is "?L \<longleftrightarrow> ?R")
    proof
      assume ?L
      then obtain i where i: "i < length (x # xs)" "k = n + i" "str_in m ((x # xs) ! i)"
        "\<forall>j<i. \<not> str_in m ((x # xs) ! j)" by blast
      then obtain i' where i': "i = Suc i'" using False by (cases i) auto
      have "\<forall>j<i'. \<not> str_in m (xs ! j)"
      proof (intro allI impI)
        fix j assume "j < i'"
        then have "Suc j < i" using i' by simp
        then have "\<not> str_in m ((x # xs) ! Suc j)" using i(4) by blast
        then show "\<not> str_in m (xs ! j)" by simp
      qed
      then show ?R using i i' by (intro exI[of _ i']) simp
    next
      assume ?R
      then obtain i where i: "i < length xs" "k = Suc n + i" "str_in m (xs ! i)"
        "\<forall>j<i. \<not> str_in m (xs ! j)" by blast
      have "\<forall>j<Suc i. \<not> str_in m ((x # xs) ! j)"
      proof (intro allI impI)
        fix j assume "j < Suc i"
        then show "\<not> str_in m ((x # xs) ! j)" using False i(4) by (cases j) auto
      qed
      then show ?L using i by (intro exI[of _ "Suc i"]) simp
    qed
    then show ?thesis using False Cons.IH[of "Suc n"] by simp
  qed
qed

subsection \<open>The token format\<close>

lemma isdigit_K: "\<not> isdigit CHR ''K''" and isdigit_plus: "\<not> isdigit CHR ''+''"
  by (simp_all add: isdigit_def)

lemma mark_match_shape:
  assumes "mark_match s = Some (km, ms)"
  shows "s = CHR ''K'' # km @ CHR ''+'' # ms" and "km \<noteq> []" and "list_all isdigit km"
    and "length ms = 3" and "list_all isdigit ms"
proof -
  obtain r where s: "s = CHR ''K'' # r"
    using assms by (auto simp: mark_match_def split: list.splits if_splits)
  let ?km = "takeWhile isdigit r" and ?rest = "dropWhile isdigit r"
  from assms s have nz: "?km \<noteq> []"
    by (auto simp: mark_match_def Let_def split: if_splits)
  from assms s nz obtain p ms' where rest: "?rest = p # ms'"
    by (cases ?rest) (auto simp: mark_match_def Let_def)
  from assms s nz rest have f: "p = CHR ''+''" "length ms' = 3" "list_all isdigit ms'"
    "km = ?km" "ms = ms'"
    by (auto simp: mark_match_def Let_def split: if_splits)
  have "r = ?km @ ?rest" by simp
  then show "s = CHR ''K'' # km @ CHR ''+'' # ms" using s rest f by simp
  show "km \<noteq> []" using nz f by simp
  show "list_all isdigit km" using f by (simp add: list_all_iff) (meson set_takeWhileD)
  show "length ms = 3" "list_all isdigit ms" using f by simp_all
qed

lemma takeWhile_digits:
  "list_all isdigit ds \<Longrightarrow> takeWhile isdigit (ds @ CHR ''+'' # r) = ds"
  by (induction ds) (simp_all add: isdigit_plus)

lemma dropWhile_digits:
  "list_all isdigit ds \<Longrightarrow> dropWhile isdigit (ds @ CHR ''+'' # r) = CHR ''+'' # r"
  by (induction ds) (simp_all add: isdigit_plus)

lemma str_in_format_eq:
  assumes m: "mark_match m \<noteq> None" and t: "mark_match t \<noteq> None"
  shows "str_in m t \<longleftrightarrow> m = t"
proof
  assume "m = t"
  then have "t = [] @ m @ []" by simp
  then show "str_in m t" unfolding str_in_iff by blast
next
  assume "str_in m t"
  then obtain p q where pq: "t = p @ m @ q" unfolding str_in_iff by blast
  from m obtain km ms where mm: "mark_match m = Some (km, ms)" by auto
  from t obtain kt mt where tt: "mark_match t = Some (kt, mt)" by auto
  note M = mark_match_shape[OF mm] and T = mark_match_shape[OF tt]
  have p: "p = []"
  proof (cases p)
    case Nil then show ?thesis .
  next
    case (Cons c p')
    then have "kt @ CHR ''+'' # mt = p' @ m @ q" using pq T(1) by simp
    then have "CHR ''K'' \<in> set (kt @ CHR ''+'' # mt)" using M(1) by simp
    then have "CHR ''K'' \<in> set kt \<or> CHR ''K'' \<in> set mt" by auto
    then have False using T(3) T(5) isdigit_K by (auto simp: list_all_iff)
    then show ?thesis ..
  qed
  then have eq: "kt @ CHR ''+'' # mt = km @ CHR ''+'' # (ms @ q)" using pq M(1) T(1) by simp
  have "takeWhile isdigit (kt @ CHR ''+'' # mt) = takeWhile isdigit (km @ CHR ''+'' # (ms @ q))"
    using eq by simp
  then have k: "kt = km" using takeWhile_digits M(3) T(3) by simp
  then have "mt = ms @ q" using eq by simp
  then have "q = []" using M(4) T(4) by (cases q) auto
  then show "m = t" using pq p by simp
qed

lemma strip_token:
  assumes "list_all isdigit ms" "ms \<noteq> []"
  shows "strip (CHR ''K'' # km @ CHR ''+'' # ms) = CHR ''K'' # km @ CHR ''+'' # ms"
proof -
  obtain c cs where r: "rev ms = c # cs" using assms(2) by (cases "rev ms") auto
  then have "c \<in> set ms" by (metis list.set_intros(1) set_rev)
  then have "isdigit c" using assms(1) by (simp add: list_all_iff)
  then have d: "\<not> isspace c" by (auto simp: isdigit_def isspace_def Let_def)
  have k: "\<not> isspace CHR ''K''" by (simp add: isspace_def)
  let ?s = "CHR ''K'' # km @ CHR ''+'' # ms"
  have "rev ?s = c # cs @ CHR ''+'' # rev km @ [CHR ''K'']" using r by simp
  then have "dropWhile isspace (rev ?s) = rev ?s" using d by simp
  then show ?thesis using k by (simp add: strip_def)
qed

lemma mark_match_token:
  assumes "km \<noteq> []" "list_all isdigit km" "length ms = 3" "list_all isdigit ms"
  shows "mark_match (CHR ''K'' # km @ CHR ''+'' # ms) = Some (km, ms)"
  using assms by (simp add: mark_match_def takeWhile_digits dropWhile_digits)

lemma mark_parse_token:
  assumes "km \<noteq> []" "list_all isdigit km" "length ms = 3" "list_all isdigit ms"
  shows "mark_parse (CHR ''K'' # km @ CHR ''+'' # ms)
           = Inr (real (int_of_digits km) + real (int_of_digits ms) / 1000)"
proof -
  have "ms \<noteq> []" using assms(3) by auto
  then show ?thesis
    using assms by (simp add: mark_parse_def strip_token mark_match_token)
qed

lemma mileage_diff_value:
  "mark_parse a = Inr x \<Longrightarrow> mark_parse b = Inr y \<Longrightarrow> mileage_diff a b = Inr (\<bar>x - y\<bar> / 1000)"
  by (simp add: mileage_diff_def)

text \<open>A string that is only a part of a position's token matches that position.\<close>

lemma path_index_substring:
  "path_index default_standard_path (Some ''K0001'') = Inr 0"
  "path_index default_standard_path (Some '''') = Inr 0"
  by (simp_all add: path_index_def default_standard_path_def)

subsection \<open>Claims about the route model\<close>

text \<open>
  C2. The claim: for tokens accepted by the parser, the distance between two marks is the
  absolute difference of their distances in kilometres, a token \<^verbatim>\<open>K<km>+<mmm>\<close> being at
  \<open>km + mmm/1000\<close> (the second half is \<open>mark_parse_token\<close>). The code divides the
  absolute difference by 1000 once more (\<open>mileage_diff_value\<close>): between kilometre 1 and
  kilometre 100 it returns 0.099, where the absolute difference is 99.
\<close>

theorem mileage_diff_thousandth:
  "mark_parse ''K0001+000'' = Inr 1 \<and> mark_parse ''K0100+000'' = Inr 100
   \<and> mileage_diff ''K0100+000'' ''K0001+000'' = Inr (99 / 1000)
   \<and> mileage_diff ''K0100+000'' ''K0001+000'' \<noteq> Inr \<bar>100 - 1\<bar>"
  by (simp add: mileage_diff_def mark_parse_def mark_match_def strip_def isspace_def
      isdigit_def int_of_digits_def digit_val_def)

text \<open>
  C3. For marks \<open>a\<close> and \<open>b\<close> that both have a position, \<^verbatim>\<open>is_continuous(a, b)\<close> is
  true exactly when the position of \<open>a\<close> minus the position of \<open>b\<close> is 1, and whenever
  it is true for \<open>(a, b)\<close> it is false for \<open>(b, a)\<close>.
\<close>

theorem is_continuous_iff:
  "path_index sp (Some a) = Inr i \<and> path_index sp (Some b) = Inr j
   \<longrightarrow> is_continuous sp a b = Inr (i - j = 1)
       \<and> (is_continuous sp a b = Inr True \<longrightarrow> is_continuous sp b a = Inr False)"
  by (auto simp: is_continuous_def)

theorem is_continuous_iff_witness:
  "path_index default_standard_path (Some ''K0100+000'') = Inr 1
   \<and> path_index default_standard_path (Some ''K0001+000'') = Inr 0
   \<and> is_continuous default_standard_path ''K0100+000'' ''K0001+000'' = Inr True
   \<and> is_continuous default_standard_path ''K0001+000'' ''K0100+000'' = Inr False"
proof -
  have a: "path_index default_standard_path (Some ''K0100+000'') = Inr 1"
    by (simp add: path_index_def default_standard_path_def)
  have b: "path_index default_standard_path (Some ''K0001+000'') = Inr 0"
    by (simp add: path_index_def default_standard_path_def)
  show ?thesis
    using is_continuous_iff[of default_standard_path "''K0100+000''" 1 "''K0001+000''" 0] a b
    by simp
qed

text \<open>
  C4. \<^verbatim>\<open>path_index\<close> scans the outbound sequence first and returns the zero-based index
  of the first position that matches; only when no outbound position matches it scans the
  inbound sequence and returns the first matching index plus 10000; with no match in
  either direction it fails with ValueError; where several positions of a direction match,
  the first wins. A position matches when Python's \<^verbatim>\<open>mark in path\<close> holds, which for a
  mark and a position that both have the token format is equality of the two tokens.
\<close>

theorem path_index_scan:
  "(i < length outbound \<and> str_in m (outbound ! i) \<and> (\<forall>k<i. \<not> str_in m (outbound ! k))
      \<longrightarrow> path_index (outbound # inbound # others) (Some m) = Inr (int i))
   \<and> ((\<forall>t\<in>set outbound. \<not> str_in m t) \<and> j < length inbound \<and> str_in m (inbound ! j)
        \<and> (\<forall>k<j. \<not> str_in m (inbound ! k))
      \<longrightarrow> path_index (outbound # inbound # others) (Some m) = Inr (int j + 10000))
   \<and> ((\<forall>t\<in>set outbound. \<not> str_in m t) \<and> (\<forall>t\<in>set inbound. \<not> str_in m t)
      \<longrightarrow> path_index (outbound # inbound # others) (Some m) = Inl ValueError)
   \<and> (mark_match m \<noteq> None \<and> mark_match t \<noteq> None \<longrightarrow> str_in m t = (m = t))"
proof (intro conjI impI)
  assume "i < length outbound \<and> str_in m (outbound ! i) \<and> (\<forall>k<i. \<not> str_in m (outbound ! k))"
  then have "scan m outbound 0 = Some i" unfolding scan_Some by auto
  then show "path_index (outbound # inbound # others) (Some m) = Inr (int i)"
    by (simp add: path_index_def)
next
  assume h: "(\<forall>t\<in>set outbound. \<not> str_in m t) \<and> j < length inbound \<and> str_in m (inbound ! j)
        \<and> (\<forall>k<j. \<not> str_in m (inbound ! k))"
  then have "scan m outbound 0 = None" by (simp add: scan_None)
  moreover have "scan m inbound 0 = Some j" using h unfolding scan_Some by auto
  ultimately show "path_index (outbound # inbound # others) (Some m) = Inr (int j + 10000)"
    by (simp add: path_index_def)
next
  assume "(\<forall>t\<in>set outbound. \<not> str_in m t) \<and> (\<forall>t\<in>set inbound. \<not> str_in m t)"
  then have "scan m outbound 0 = None" "scan m inbound 0 = None" by (simp_all add: scan_None)
  then show "path_index (outbound # inbound # others) (Some m) = Inl ValueError"
    by (simp add: path_index_def)
next
  assume "mark_match m \<noteq> None \<and> mark_match t \<noteq> None"
  then show "str_in m t = (m = t)" using str_in_format_eq by blast
qed

theorem path_index_scan_witness:
  "path_index default_standard_path (Some ''K0100+000'') = Inr 1
   \<and> path_index default_standard_path (Some ''K0100+300'') = Inr 10001
   \<and> path_index default_standard_path (Some ''K9999+000'') = Inl ValueError
   \<and> str_in ''K0100+000'' ''K0100+000''"
proof -
  let ?out = "[''K0001+000'', ''K0100+000'', ''K0200+000'', ''K0300+000'']"
  let ?inb = "[''K0001+300'', ''K0100+300'', ''K0100+300'', ''K0100+300'']"
  have fmt: "mark_match ''K0100+000'' \<noteq> None"
    by (simp add: mark_match_def isdigit_def)
  have a: "path_index (?out # ?inb # []) (Some ''K0100+000'') = Inr (int 1)"
    using path_index_scan[of 1 ?out "''K0100+000''" ?inb "[]"] by simp
  have b: "path_index (?out # ?inb # []) (Some ''K0100+300'') = Inr (int 1 + 10000)"
    using path_index_scan[of _ ?out "''K0100+300''" ?inb "[]" 1] by simp
  have c: "path_index (?out # ?inb # []) (Some ''K9999+000'') = Inl ValueError"
    using path_index_scan[of _ ?out "''K9999+000''" ?inb "[]"] by simp
  have d: "str_in ''K0100+000'' ''K0100+000''"
    using path_index_scan[of _ ?out "''K0100+000''" ?inb "[]" _ "''K0100+000''"] fmt by blast
  show ?thesis using a b c d by (simp add: default_standard_path_def)
qed

section \<open>Properties of the fold\<close>

subsection \<open>Steps of the loop\<close>






subsection \<open>Evaluations on the default route\<close>





lemma lookup_PostSQLClient: "lookup_global ''PostSQLClient'' = Inl NameError"
  by (simp add: lookup_global_def module_globals_def)


subsection \<open>Claims about the fold\<close>









text \<open>
  C9. \<^verbatim>\<open>_process_single_plate\<close> returns \<^verbatim>\<open>False\<close> and leaves every ledger row as it
  was, for every plate and every list of records: the name \<^verbatim>\<open>PostSQLClient\<close> is not
  bound in the module, so the \<^verbatim>\<open>try\<close> raises NameError before any statement reaches
  the store.
\<close>

theorem process_single_plate_fails:
  "process_single_plate sp rows p records = (rows, False)"
  by (simp add: process_single_plate_def lookup_PostSQLClient)

section \<open>Properties of the staging pipeline and the batch\<close>

subsection \<open>Relation names\<close>

lemma table_names:
  "''raw_table'' \<noteq> RAW_TABLE" "''filtered_table'' \<noteq> FILTERED_TABLE"
  "''staging_table'' \<noteq> STAGING_TABLE" "''staging_table'' \<noteq> FILTERED_TABLE"
  "''filtered_table'' \<noteq> STAGING_TABLE" "STAGING_TABLE \<noteq> FILTERED_TABLE"
  "STAGING_TABLE \<noteq> ''staging_table''" "FILTERED_TABLE \<noteq> ''staging_table''"
  "FILTERED_TABLE \<noteq> ''filtered_table''" "RAW_TABLE \<noteq> ''raw_table''"
  "FILTERED_TABLE \<noteq> STAGING_TABLE" "STAGING_TABLE \<noteq> ''filtered_table''"
  by (simp_all add: RAW_TABLE_def FILTERED_TABLE_def STAGING_TABLE_def)

lemma relations_drop [simp]:
  "relations (drop_table_if_exists t st) = (relations st)(t := None)"
  "vehicle_info (drop_table_if_exists t st) = vehicle_info st"
  "vehicle_record (drop_table_if_exists t st) = vehicle_record st"
  by (simp_all add: drop_table_if_exists_def)

lemma create_raw_table_other:
  "t \<noteq> RAW_TABLE \<Longrightarrow> relations (create_raw_table st) t = relations st t"
  by (simp add: create_raw_table_def split: option.splits)

lemma copy_from_missing:
  "relations st t = None \<Longrightarrow> copy_from file_lines t st = Inl DatabaseError"
  by (simp add: copy_from_def)

lemma raw_table_missing:
  "relations (create_raw_table (drop_table_if_exists ''raw_table'' st)) ''raw_table'' = None"
  by (simp add: create_raw_table_other table_names)

lemma import_trace_body_raises:
  "\<exists>e. import_trace_body to_timestamp csv_file st = Inl e"
  by (cases csv_file)
     (simp_all add: import_trace_body_def Let_def copy_from_missing raw_table_missing)

subsection \<open>The batch\<close>





lemma run_tasks_all_fail: "run_tasks sp rows gs = (rows, 0, length gs)"
proof (induction gs arbitrary: rows)
  case Nil
  then show ?case by simp
next
  case (Cons g gs)
  obtain p records where g: "g = (p, records)" by (cases g) auto
  have "process_single_plate sp rows p records = (rows, False)"
    by (simp add: process_single_plate_def lookup_PostSQLClient)
  then show ?case using Cons.IH g by simp
qed

lemma update_vehicle_info_from_staging_isolated:
  assumes "relations st ''staging_table'' = Some (TraceRel rs)"
    and "0 < min (int (length (plate_groups (sort_key order_key rs))))
                 (int (cpu_count pr) * max_threads_multiplier pr)"
  shows "update_vehicle_info_from_staging pr st
           = Inr (st, 0, length (plate_groups (sort_key order_key rs)))"
proof -
  have mw: "\<not> min (int (length (plate_groups (sort_key order_key rs))))
                 (int (cpu_count pr) * max_threads_multiplier pr) \<le> 0"
    using assms(2) by linarith
  have "select_ordered ''staging_table'' st = Inr (sort_key order_key rs)"
    using assms(1) by (simp add: select_ordered_def)
  then show ?thesis
    using mw
    by (simp only: update_vehicle_info_from_staging_def Let_def run_tasks_all_fail
        sum.case if_False prod.case) simp
qed

lemma cleanup_keeps:
  "relations (drop_table_if_exists ''staging_table'' (drop_table_if_exists ''filtered_table'' st))
     FILTERED_TABLE = relations st FILTERED_TABLE"
  "relations (drop_table_if_exists ''staging_table'' (drop_table_if_exists ''filtered_table'' st))
     STAGING_TABLE = relations st STAGING_TABLE"
  by (simp_all add: table_names)

subsection \<open>The records handed to a task\<close>

text \<open>
  Each group holds the rows of its plate, in the order of the ordered select: ascending by
  timestamp.
\<close>

lemma plate_groups_append_keys:
  "map fst (plate_groups_append gs r)
     = (if r_plate r \<in> set (map fst gs) then map fst gs else map fst gs @ [r_plate r])"
  by (induction gs r rule: plate_groups_append.induct) auto

lemma plate_groups_append_lookup:
  "map_of (plate_groups_append gs r) p
     = (if p = r_plate r
        then Some (case map_of gs p of None \<Rightarrow> [r] | Some rs \<Rightarrow> rs @ [r])
        else map_of gs p)"
  by (induction gs r rule: plate_groups_append.induct) auto

lemma foldl_groups_keys:
  "distinct (map fst gs) \<Longrightarrow> distinct (map fst (foldl plate_groups_append gs xs))"
  by (induction xs arbitrary: gs) (simp_all add: plate_groups_append_keys)

lemma foldl_groups_lookup:
  "map_of (foldl plate_groups_append gs xs) p
     = (case map_of gs p of
          None \<Rightarrow> (if filter (\<lambda>r. r_plate r = p) xs = [] then None
                   else Some (filter (\<lambda>r. r_plate r = p) xs))
        | Some rs \<Rightarrow> Some (rs @ filter (\<lambda>r. r_plate r = p) xs))"
proof (induction xs arbitrary: gs)
  case Nil
  then show ?case by (simp split: option.splits)
next
  case (Cons x xs)
  show ?case
    by (simp add: Cons.IH plate_groups_append_lookup split: option.splits)
qed

lemma plate_groups_records:
  assumes "(p, records) \<in> set (plate_groups staging_data)"
  shows "records = filter (\<lambda>r. r_plate r = p) staging_data" and "records \<noteq> []"
proof -
  have "distinct (map fst (plate_groups staging_data))"
    unfolding plate_groups_def by (rule foldl_groups_keys) simp
  then have "map_of (plate_groups staging_data) p = Some records"
    using assms by simp
  then have "(if filter (\<lambda>r. r_plate r = p) staging_data = [] then None
              else Some (filter (\<lambda>r. r_plate r = p) staging_data)) = Some records"
    unfolding plate_groups_def foldl_groups_lookup by simp
  then show "records = filter (\<lambda>r. r_plate r = p) staging_data" and "records \<noteq> []"
    by (auto split: if_splits)
qed

lemma plate_groups_ascending:
  assumes "select_ordered table st = Inr staging_data"
    and "(p, records) \<in> set (plate_groups staging_data)"
  shows "sorted (map order_key records)"
proof -
  obtain rs where "staging_data = sort_key order_key rs"
    using assms(1) by (auto simp: select_ordered_def split: option.splits relation.splits)
  then have "sorted (map order_key staging_data)" by simp
  then have "sorted (map order_key (filter (\<lambda>r. r_plate r = p) staging_data))"
    by (rule sorted_filter)
  then show ?thesis using plate_groups_records(1)[OF assms(2)] by simp
qed

subsection \<open>Claims about the pipeline and the batch\<close>

text \<open>
  C10. For every file and every store, \<^verbatim>\<open>import_vehicle_trace_from_csv\<close> raises IOError
  and leaves the store as it was at \<^verbatim>\<open>begin\<close>: the raw relation it creates is named
  \<^verbatim>\<open>raw_trace_data\<close>, the COPY targets \<^verbatim>\<open>raw_table\<close>, which was dropped just before,
  so the load fails.
\<close>

theorem import_vehicle_trace_from_csv_fails:
  "import_vehicle_trace_from_csv to_timestamp csv_file st = (st, Inl IOError)
   \<and> relations (create_raw_table (drop_table_if_exists ''raw_table'' st)) ''raw_table'' = None
   \<and> relations (create_raw_table (drop_table_if_exists ''raw_table'' st)) RAW_TABLE \<noteq> None
   \<and> copy_from file_lines ''raw_table'' (create_raw_table (drop_table_if_exists ''raw_table'' st))
       = Inl DatabaseError"
proof -
  obtain e where "import_trace_body to_timestamp csv_file st = Inl e"
    using import_trace_body_raises by blast
  then have "import_vehicle_trace_from_csv to_timestamp csv_file st = (st, Inl IOError)"
    by (simp add: import_vehicle_trace_from_csv_def db_connection_def)
  moreover have "relations (create_raw_table (drop_table_if_exists ''raw_table'' st)) RAW_TABLE \<noteq> None"
    by (simp add: create_raw_table_def split: option.splits)
  ultimately show ?thesis
    by (simp add: raw_table_missing copy_from_missing)
qed



end
